theory Spec2Isabelle
  imports Complex_Main
begin

section \<open>CIFAR-10 classification notebook (02\_keras\_cnn)\<close>

text \<open>
  The notebook defines a Keras model class, a one-call training function
  (\<open>train_network_concise\<close>), a hand-written training loop (\<open>train_loop\<close>,
  \<open>train_network\<close>) and three reporting cells (loss/accuracy plots, test-set
  evaluation, confusion matrix with per-class accuracy).

  The numerical work is done by TensorFlow/Keras, NumPy and scikit-learn. The layers'
  arithmetic, the loss, automatic differentiation, the optimizer's update rule and
  \<open>Model.fit\<close> are taken as parameters (the record \<open>keras\<close> below); the control
  flow around them, the data pipeline, the resolution of the training mode, the
  confusion matrix and the per-class division are defined here and computed.
  Every random choice (shuffle order, dropout mask, weight initialisation) is an explicit
  argument, so that a result that does not depend on it is seen not to.
\<close>

subsection \<open>Errors\<close>

datatype error =
    ZeroDivisionError
  | InvalidArgumentError
  | ValueError
  | KeyError
  | IndexError

subsection \<open>Tensors and the \<open>tf.data\<close> pipeline\<close>

text \<open>
  A tensor with a leading batch axis is a list of rows, one flat row of entries per
  sample: an image of shape (32, 32, 3) is a row of \<open>32 * 32 * 3\<close> entries. A label is an
  integer (\<open>int32\<close>).
\<close>

type_synonym 'a tensor = "'a list list"


text \<open>
  \<open>Dataset.shuffle(buffer_size)\<close> RETURNS a dataset whose elements are those of the
  receiver in a random order; the receiver is a value and is left as it was. The order
  drawn is the argument \<open>draw\<close>, a list of positions; a \<open>draw\<close> that is not a
  permutation of the positions stands for the identity order.
\<close>

definition shuffle :: "nat list \<Rightarrow> nat \<Rightarrow> 'e list \<Rightarrow> 'e list" where
  "shuffle draw buffer_size ds =
     (if sort draw = [0..<length ds] then map (\<lambda>i. ds ! i) draw else ds)"

text \<open>
  \<open>Dataset.batch(batch_size, drop_remainder)\<close> groups consecutive elements;
  the last group, when shorter than \<open>batch_size\<close>, is yielded only if
  \<open>drop_remainder\<close> is false. The batch size is positive here: the caller below rejects
  the others first, as TensorFlow does (the size is converted to an \<open>int64\<close> tensor and
  must be positive).
\<close>

function batch :: "nat \<Rightarrow> bool \<Rightarrow> 'e list \<Rightarrow> 'e list list" where
  "batch batch_size drop_remainder ds =
     (if batch_size = 0 \<or> ds = [] then []
      else if length ds < batch_size then (if drop_remainder then [] else [ds])
      else take batch_size ds # batch batch_size drop_remainder (drop batch_size ds))"
  by pat_completeness auto
termination
  by (relation "measure (\<lambda>(b, d, ds). length ds)") auto

declare batch.simps [simp del]

text \<open>
  \<open>tf.reshape(batch_data, [-1, 32, 32, 3])\<close>: the entries are kept in order and regrouped
  in rows of \<open>32 * 32 * 3\<close>; the leading dimension \<open>-1\<close> is inferred, which fails when the
  number of entries is not a multiple of the row size.
\<close>

definition reshape :: "'a tensor \<Rightarrow> error + 'a tensor" where
  "reshape batch_data =
     (let flat = concat batch_data in
      if length flat mod (32 * 32 * 3) = 0 then Inr (batch (32 * 32 * 3) False flat)
      else Inl InvalidArgumentError)"

subsection \<open>The model and the library interface\<close>

text \<open>The trainable variables of a \<open>CIFAR10Classifier\<close>: one per layer that has weights.\<close>

record 'k CIFAR10Classifier =
  conv_1 :: 'k
  conv_2 :: 'k
  dense_5 :: 'k
  dense_7 :: 'k

record 'o optimizer =
  opt_name :: string
  learning_rate :: rat
  slots :: 'o

text \<open>A model after \<open>compile\<close>.\<close>

record ('k, 'o) compiled =
  network :: "'k CIFAR10Classifier"
  loss_id :: string
  compiled_optimizer :: "'o optimizer"
  metrics :: "string list"

text \<open>The object \<open>Model.fit\<close> returns: the epoch indices and the per-epoch logs by name.\<close>

record 'a History =
  epoch :: "nat list"
  history_dict :: "string \<Rightarrow> 'a list option"

text \<open>
  The library: \<open>'a\<close> the numbers, \<open>'k\<close> a layer's weights, \<open>'o\<close> the optimizer's
  internal state, \<open>'r\<close> a random draw.
  \<open>drop_features rate r x\<close> is what an ACTIVE dropout layer computes from the draw \<open>r\<close>.
  \<open>SparseCategoricalCrossentropy\<close> and \<open>metric\<close> are the arithmetic of the loss and of
  a metric on inputs they accept; \<open>tape_gradient\<close> and \<open>apply_gradients\<close> may raise.
\<close>

record ('a, 'k, 'o, 'r) keras =
  Conv2D :: "nat \<Rightarrow> nat \<times> nat \<Rightarrow> string \<Rightarrow> 'k \<Rightarrow> 'a tensor \<Rightarrow> 'a tensor"
  MaxPooling2D :: "nat \<times> nat \<Rightarrow> 'a tensor \<Rightarrow> 'a tensor"
  drop_features :: "rat \<Rightarrow> 'r \<Rightarrow> 'a tensor \<Rightarrow> 'a tensor"
  Flatten :: "'a tensor \<Rightarrow> 'a tensor"
  Dense :: "nat \<Rightarrow> string \<Rightarrow> 'k \<Rightarrow> 'a tensor \<Rightarrow> 'a tensor"
  SparseCategoricalCrossentropy :: "bool \<Rightarrow> int list \<Rightarrow> 'a tensor \<Rightarrow> 'a"
  metric :: "string \<Rightarrow> int list \<Rightarrow> 'a tensor \<Rightarrow> 'a"
  tape_gradient ::
    "('k CIFAR10Classifier \<Rightarrow> error + 'a) \<Rightarrow> 'k CIFAR10Classifier
       \<Rightarrow> error + 'k CIFAR10Classifier"
  apply_gradients ::
    "'o optimizer \<Rightarrow> 'k CIFAR10Classifier \<Rightarrow> 'k CIFAR10Classifier
       \<Rightarrow> error + 'o optimizer \<times> 'k CIFAR10Classifier"
  initial_weights :: "'r \<Rightarrow> 'k CIFAR10Classifier"
  initial_slots :: "'o"
  fit ::
    "('k, 'o) compiled \<Rightarrow> 'a tensor \<Rightarrow> int list \<Rightarrow> int \<Rightarrow> int \<Rightarrow> 'r
       \<Rightarrow> error + ('a History \<times> ('k, 'o) compiled)"

text \<open>
  \<open>tf.keras.layers.Dropout(rate)\<close>: in training mode the features are dropped at random,
  in inference mode the layer is the identity.
\<close>

definition Dropout :: "('a, 'k, 'o, 'r) keras \<Rightarrow> rat \<Rightarrow> bool \<Rightarrow> 'r \<Rightarrow> 'a tensor \<Rightarrow> 'a tensor" where
  "Dropout K rate training r x = (if training then drop_features K rate r x else x)"

text \<open>
  \<open>CIFAR10Classifier.call(self, inputs)\<close>. The method takes no \<open>training\<close> argument and
  passes none to its layers: each layer reads the mode of the enclosing Keras call,
  here the argument \<open>training\<close>. \<open>masks\<close> holds the draws of \<open>drop_4\<close> and \<open>drop_6\<close>.
\<close>

definition call ::
  "('a, 'k, 'o, 'r) keras \<Rightarrow> 'k CIFAR10Classifier \<Rightarrow> bool \<Rightarrow> 'r \<times> 'r \<Rightarrow> 'a tensor \<Rightarrow> 'a tensor" where
  "call K self training masks inputs =
     (let x = Conv2D K 32 (3, 3) ''relu'' (conv_1 self) inputs;
          x = Conv2D K 64 (3, 3) ''relu'' (conv_2 self) x;
          x = MaxPooling2D K (2, 2) x;
          x = Dropout K (1 / 4) training (fst masks) x;
          x = Flatten K x;
          x = Dense K 128 ''relu'' (dense_5 self) x;
          x = Dropout K (1 / 2) training (snd masks) x;
          x = Dense K 10 ''softmax'' (dense_7 self) x
      in x)"

text \<open>
  \<open>model(inputs)\<close> and \<open>model(inputs, training=...)\<close>, Keras's \<open>Model.__call__\<close>: the
  training mode is the argument when one is given; with none, and no enclosing Keras
  call, it is inference (False).
\<close>

definition model_call ::
  "('a, 'k, 'o, 'r) keras \<Rightarrow> 'k CIFAR10Classifier \<Rightarrow> bool option \<Rightarrow> 'r \<times> 'r \<Rightarrow> 'a tensor
     \<Rightarrow> 'a tensor" where
  "model_call K model training masks inputs =
     call K model (case training of None \<Rightarrow> False | Some t \<Rightarrow> t) masks inputs"

text \<open>
  Calling a \<open>SparseCategoricalCrossentropy\<close> loss object: it raises unless there is one
  row of predictions per label and every label is a class index of its row, that is,
  lies in [0, number of classes).
\<close>

definition scce_call ::
  "('a, 'k, 'o, 'r) keras \<Rightarrow> bool \<Rightarrow> int list \<Rightarrow> 'a tensor \<Rightarrow> error + 'a" where
  "scce_call K from_logits y_true y_pred =
     (if list_all2 (\<lambda>y row. 0 \<le> y \<and> y < int (length row)) y_true y_pred
      then Inr (SparseCategoricalCrossentropy K from_logits y_true y_pred)
      else Inl InvalidArgumentError)"

text \<open>
  \<open>Model.predict\<close> and \<open>Model.evaluate\<close> run the model in inference mode; both raise
  on empty input data.
\<close>

definition predict ::
  "('a, 'k, 'o, 'r) keras \<Rightarrow> ('k, 'o) compiled \<Rightarrow> 'r \<times> 'r \<Rightarrow> 'a tensor \<Rightarrow> error + 'a tensor" where
  "predict K cnn masks x =
     (if x = [] then Inl ValueError
      else Inr (model_call K (network cnn) (Some False) masks x))"

definition evaluate ::
  "('a, 'k, 'o, 'r) keras \<Rightarrow> ('k, 'o) compiled \<Rightarrow> 'r \<times> 'r \<Rightarrow> 'a tensor \<Rightarrow> int list
     \<Rightarrow> error + 'a list" where
  "evaluate K cnn masks x y =
     (if x = [] then Inl ValueError
      else
        let y_pred = model_call K (network cnn) (Some False) masks x in
        case scce_call K False y y_pred of
          Inl e \<Rightarrow> Inl e
        | Inr loss \<Rightarrow> Inr (loss # map (\<lambda>name. metric K name y y_pred) (metrics cnn)))"

text \<open>
  \<open>tf.keras.optimizers.Adam(lr)\<close>, and the optimizer Keras builds from the string
  \<open>"adam"\<close>: Adam with its default learning rate 0.001. Other identifiers are not
  used by the notebook.
\<close>

definition Adam :: "('a, 'k, 'o, 'r) keras \<Rightarrow> rat \<Rightarrow> 'o optimizer" where
  "Adam K lr = \<lparr>opt_name = ''adam'', learning_rate = lr, slots = initial_slots K\<rparr>"

definition optimizers_get :: "('a, 'k, 'o, 'r) keras \<Rightarrow> string \<Rightarrow> error + 'o optimizer" where
  "optimizers_get K name =
     (if name = ''adam'' then Inr (Adam K (1 / 1000)) else Inl ValueError)"

definition compile ::
  "('a, 'k, 'o, 'r) keras \<Rightarrow> 'k CIFAR10Classifier \<Rightarrow> string \<Rightarrow> string \<Rightarrow> string list
     \<Rightarrow> error + ('k, 'o) compiled" where
  "compile K model loss opt ms =
     (case optimizers_get K opt of
        Inl e \<Rightarrow> Inl e
      | Inr optimizer \<Rightarrow>
          Inr \<lparr>network = model, loss_id = loss, compiled_optimizer = optimizer, metrics = ms\<rparr>)"

subsection \<open>Simple training\<close>

text \<open>
  \<open>train_network_concise(_batch_size, _n_training_epochs, _lr)\<close>; the globals
  \<open>x_train\<close>, \<open>y_train\<close> it reads and the random seed are arguments.
\<close>

definition train_network_concise ::
  "('a, 'k, 'o, 'r) keras \<Rightarrow> 'a tensor \<Rightarrow> int list \<Rightarrow> 'r \<Rightarrow> int \<Rightarrow> int \<Rightarrow> rat
     \<Rightarrow> error + ('a History \<times> ('k, 'o) compiled)" where
  "train_network_concise K x_train y_train seed batch_size n_training_epochs lr =
     (let cnn_model = initial_weights K seed in
      case compile K cnn_model ''sparse_categorical_crossentropy'' ''adam'' [''accuracy''] of
        Inl e \<Rightarrow> Inl e
      | Inr cnn_model \<Rightarrow>
          (case fit K cnn_model x_train y_train batch_size n_training_epochs seed of
             Inl e \<Rightarrow> Inl e
           | Inr (history, cnn_model) \<Rightarrow> Inr (history, cnn_model)))"

subsection \<open>More verbose training\<close>

definition compute_loss :: "('a, 'k, 'o, 'r) keras \<Rightarrow> int list \<Rightarrow> 'a tensor \<Rightarrow> error + 'a" where
  "compute_loss K y_true y_pred =
     (let scce = scce_call K False in scce y_true y_pred)"

definition forward_pass ::
  "('a, 'k, 'o, 'r) keras \<Rightarrow> 'k CIFAR10Classifier \<Rightarrow> 'r \<times> 'r \<Rightarrow> 'a tensor \<Rightarrow> int list
     \<Rightarrow> error + 'a" where
  "forward_pass K model masks batch_data y_true =
     (let y_pred = model_call K model None masks batch_data;
          loss = compute_loss K y_true y_pred
      in loss)"

text \<open>
  What the loop acts on: the model's variables, the optimizer, the number of
  \<open>apply_gradients\<close> calls made so far, and the lines printed. The elapsed time in the
  second line of an epoch is wall-clock time and is left out of the line.
\<close>

datatype line = Beginning_epoch nat | Took_seconds_for_epoch nat

record ('k, 'o) run =
  model_vars :: "'k CIFAR10Classifier"
  opt :: "'o optimizer"
  apply_count :: nat
  printed :: "line list"

definition train_iteration ::
  "('a, 'k, 'o, 'r) keras \<Rightarrow> 'r \<times> 'r \<Rightarrow> 'a tensor \<Rightarrow> int list \<Rightarrow> ('k, 'o) run
     \<Rightarrow> error + 'a \<times> ('k, 'o) run" where
  "train_iteration K masks data y_true st =
     (case forward_pass K (model_vars st) masks data y_true of
        Inl e \<Rightarrow> Inl e
      | Inr loss \<Rightarrow>
          (let trainable_vars = model_vars st in
           case tape_gradient K (\<lambda>m. forward_pass K m masks data y_true) trainable_vars of
             Inl e \<Rightarrow> Inl e
           | Inr grads \<Rightarrow>
               (case apply_gradients K (opt st) grads trainable_vars of
                  Inl e \<Rightarrow> Inl e
                | Inr (opt', vars') \<Rightarrow>
                    Inr (loss, st\<lparr>model_vars := vars', opt := opt',
                                   apply_count := Suc (apply_count st)\<rparr>))))"

text \<open>
  The batches one epoch iterates over. \<open>epoch_steps = int(50000/batch_size)\<close> divides
  by the batch size (and is not used afterwards); the result of \<open>dataset.shuffle(50000)\<close>
  is not bound to a name; \<open>dataset.batch\<close> raises \<open>ValueError\<close> for a batch size that is
  negative or does not fit a signed 64-bit integer. Each batch is
  the pair of the stacked images and the stacked labels.
\<close>

definition epoch_batches ::
  "nat list \<Rightarrow> int \<Rightarrow> ('a list \<times> int) list \<Rightarrow> error + ('a tensor \<times> int list) list" where
  "epoch_batches draw batch_size dataset =
     (if batch_size = 0 then Inl ZeroDivisionError
      else
        let _ = shuffle draw 50000 dataset in
        if batch_size < 0 \<or> 2 ^ 63 \<le> batch_size then Inl ValueError
        else
          let batches = batch (nat batch_size) True dataset
          in Inr (map (\<lambda>e. (map fst e, map snd e)) batches))"

text \<open>
  The inner loop: \<open>for i_batch, (batch_data, y_true) in enumerate(batches)\<close>. An
  exception of the reshape, the forward pass, the gradient or the optimizer step ends
  the loop and propagates.
\<close>

fun run_batches ::
  "('a, 'k, 'o, 'r) keras \<Rightarrow> (nat \<Rightarrow> 'r \<times> 'r) \<Rightarrow> nat \<Rightarrow> ('a tensor \<times> int list) list
     \<Rightarrow> ('k, 'o) run \<Rightarrow> error + ('k, 'o) run" where
  "run_batches K masks i_batch [] st = Inr st"
| "run_batches K masks i_batch ((batch_data, y_true) # batches) st =
     (case reshape batch_data of
        Inl e \<Rightarrow> Inl e
      | Inr batch_data \<Rightarrow>
          (case train_iteration K (masks i_batch) batch_data y_true st of
             Inl e \<Rightarrow> Inl e
           | Inr (loss, st) \<Rightarrow> run_batches K masks (Suc i_batch) batches st))"

text \<open>
  The outer loop: \<open>for i_epoch in range(n_training_epochs)\<close>, with \<open>todo\<close> epochs
  left. \<open>draws i_epoch\<close> is the shuffle order drawn in that epoch and
  \<open>masks i_epoch i_batch\<close> the dropout draws of that step.
\<close>

fun epochs_from ::
  "('a, 'k, 'o, 'r) keras \<Rightarrow> ('a list \<times> int) list \<Rightarrow> (nat \<Rightarrow> nat list) \<Rightarrow> (nat \<Rightarrow> nat \<Rightarrow> 'r \<times> 'r)
     \<Rightarrow> int \<Rightarrow> nat \<Rightarrow> nat \<Rightarrow> ('k, 'o) run \<Rightarrow> error + ('k, 'o) run" where
  "epochs_from K dataset draws masks batch_size 0 i_epoch st = Inr st"
| "epochs_from K dataset draws masks batch_size (Suc todo) i_epoch st =
     (let st = st\<lparr>printed := printed st @ [Beginning_epoch i_epoch]\<rparr> in
      case epoch_batches (draws i_epoch) batch_size dataset of
        Inl e \<Rightarrow> Inl e
      | Inr batches \<Rightarrow>
          (case run_batches K (masks i_epoch) 0 batches st of
             Inl e \<Rightarrow> Inl e
           | Inr st \<Rightarrow>
               epochs_from K dataset draws masks batch_size todo (Suc i_epoch)
                 (st\<lparr>printed := printed st @ [Took_seconds_for_epoch i_epoch]\<rparr>)))"

text \<open>
  \<open>train_loop(batch_size, n_training_epochs, model, opt)\<close>; the global \<open>dataset\<close> it
  reads is an argument. The function has no \<open>return\<close> statement: its value is
  Python's \<open>None\<close>, here the \<open>None\<close> of an optional history. The final state of the
  model and the optimizer is returned beside it.
\<close>

definition train_loop ::
  "('a, 'k, 'o, 'r) keras \<Rightarrow> ('a list \<times> int) list \<Rightarrow> (nat \<Rightarrow> nat list) \<Rightarrow> (nat \<Rightarrow> nat \<Rightarrow> 'r \<times> 'r)
     \<Rightarrow> int \<Rightarrow> int \<Rightarrow> 'k CIFAR10Classifier \<Rightarrow> 'o optimizer
     \<Rightarrow> error + ('a History option \<times> ('k, 'o) run)" where
  "train_loop K dataset draws masks batch_size n_training_epochs model optimizer =
     (case epochs_from K dataset draws masks batch_size (nat n_training_epochs) 0
             \<lparr>model_vars = model, opt = optimizer, apply_count = 0, printed = []\<rparr> of
        Inl e \<Rightarrow> Inl e
      | Inr st \<Rightarrow> Inr (None, st))"

text \<open>\<open>train_network(_batch_size, _n_training_epochs, _lr)\<close>: it returns what \<open>train_loop\<close> leaves.\<close>

definition train_network ::
  "('a, 'k, 'o, 'r) keras \<Rightarrow> ('a list \<times> int) list \<Rightarrow> 'r \<Rightarrow> (nat \<Rightarrow> nat list)
     \<Rightarrow> (nat \<Rightarrow> nat \<Rightarrow> 'r \<times> 'r) \<Rightarrow> int \<Rightarrow> int \<Rightarrow> rat
     \<Rightarrow> error + ('a History option \<times> ('k, 'o) run)" where
  "train_network K dataset seed draws masks batch_size n_training_epochs lr =
     (let mnist_model = initial_weights K seed;
          optimizer = Adam K lr
      in case train_loop K dataset draws masks batch_size n_training_epochs mnist_model optimizer of
           Inl e \<Rightarrow> Inl e
         | Inr (_, st) \<Rightarrow> Inr (None, st))"

subsection \<open>Reporting\<close>

text \<open>
  \<open>numpy.argmax(predictions, axis=1)\<close>: for each row the position of the first
  largest entry; an empty row has none. The scan keeps the best position and value so far.
\<close>

fun argmax_scan :: "'a::linorder list \<Rightarrow> nat \<Rightarrow> nat \<Rightarrow> 'a \<Rightarrow> nat" where
  "argmax_scan [] i best_i best = best_i"
| "argmax_scan (y # ys) i best_i best =
     (if best < y then argmax_scan ys (Suc i) i y else argmax_scan ys (Suc i) best_i best)"

definition argmax :: "'a::linorder tensor \<Rightarrow> error + nat list" where
  "argmax a =
     (if [] \<in> set a then Inl ValueError
      else Inr (map (\<lambda>row. argmax_scan (tl row) 1 0 (hd row)) a))"

text \<open>
  \<open>sklearn.metrics.confusion_matrix(y_true, y_pred, labels=...)\<close>: entry (i, j) counts
  the samples whose true label is the i-th of \<open>labels\<close> and whose predicted label is the
  j-th; a sample with a label outside \<open>labels\<close> is counted nowhere. Empty input is
  rejected (by current scikit-learn; older versions returned a zero matrix).
\<close>

definition confusion_matrix :: "int list \<Rightarrow> int list \<Rightarrow> int list \<Rightarrow> error + nat list list" where
  "confusion_matrix y_true y_pred labels =
     (if length y_true \<noteq> length y_pred then Inl ValueError
      else if labels = [] then Inl ValueError
      else if y_true = [] then Inl ValueError
      else if \<not> list_ex (\<lambda>t. t \<in> set labels) y_true then Inl ValueError
      else Inr (map (\<lambda>i. map (\<lambda>j. length (filter (\<lambda>s. s = (i, j)) (zip y_true y_pred))) labels)
                  labels))"

text \<open>
  NumPy's true division of two integer arrays converts to \<open>float64\<close> and divides,
  raising nothing: a zero divisor yields \<open>nan\<close> for 0/0 and \<open>inf\<close> otherwise (with a
  warning); any other quotient is rounded to the nearest \<open>float64\<close>, ties to even.

  \<open>bit_length n\<close> is the number of binary digits of \<open>n\<close>, and \<open>exponent a b\<close> the
  binary exponent \<open>e\<close> of a positive quotient, \<open>2^e \<le> a/b < 2^(e+1)\<close>; the rounded quotient is a multiple of \<open>2^(e-52)\<close>, the
  spacing of the floats with a 53-bit significand in that binade. The entries of a
  confusion matrix are counts of samples: below \<open>2^53\<close> they convert to \<open>float64\<close>
  exactly, and no quotient of two of them overflows or is subnormal.
\<close>

datatype np_float = Finite rat | PosInf | NaN

definition round_half_even :: "rat \<Rightarrow> int" where
  "round_half_even x =
     (let f = \<lfloor>x\<rfloor>; d = x - of_int f
      in if d < 1 / 2 then f else if 1 / 2 < d then f + 1 else if even f then f else f + 1)"

function bit_length :: "nat \<Rightarrow> nat" where
  "bit_length n = (if n = 0 then 0 else Suc (bit_length (n div 2)))"
  by pat_completeness auto
termination
  by (relation "measure (\<lambda>n. n)") auto

declare bit_length.simps [simp del]

definition exponent :: "nat \<Rightarrow> nat \<Rightarrow> int" where
  "exponent a b =
     (let e = int (bit_length a) - int (bit_length b)
      in if (2::rat) powi e \<le> of_nat a / of_nat b then e else e - 1)"

definition float64_divide :: "nat \<Rightarrow> nat \<Rightarrow> rat" where
  "float64_divide a b =
     (let q = of_nat a / of_nat b; ulp = 2 powi (exponent a b - 52)
      in of_int (round_half_even (q / ulp)) * ulp)"

definition true_divide :: "nat \<Rightarrow> nat \<Rightarrow> np_float" where
  "true_divide a b =
     (if b = 0 then (if a = 0 then NaN else PosInf)
      else if a = 0 then Finite 0
      else Finite (float64_divide a b))"

definition diagonal :: "nat list list \<Rightarrow> nat list" where
  "diagonal cm = map (\<lambda>i. cm ! i ! i) [0..<length cm]"

definition sum_axis1 :: "nat list list \<Rightarrow> nat list" where
  "sum_axis1 cm = map sum_list cm"

text \<open>\<open>cm.diagonal()/cm.sum(axis=1)\<close>, for the square matrix \<open>confusion_matrix\<close> returns.\<close>

definition per_class_accuracy :: "nat list list \<Rightarrow> np_float list" where
  "per_class_accuracy cm = map2 true_divide (diagonal cm) (sum_axis1 cm)"

subsection \<open>The reporting cells\<close>

datatype 'a display =
    Print string
  | Print_matrix "nat list list"
  | Print_class_accuracy nat np_float
  | Print_percent string 'a
  | Plot string "nat list" "'a list"

text \<open>The global variables the reporting cells read or assign, and what they display.\<close>

record ('a, 'k, 'o) notebook =
  x_train :: "'a tensor"
  y_train :: "int list"
  x_test :: "'a tensor"
  y_test :: "int list"
  cnn_model :: "('k, 'o) compiled"
  history :: "'a History"
  x_test_reshaped :: "'a list list list"
  scores :: "'a list"
  predictions :: "'a tensor"
  cm :: "nat list list"
  out :: "'a display list"

text \<open>
  A cell returns the error that stopped it, if any, and the globals as they are then.

  The plotting cell: \<open>plt.plot(history.epoch, history.history['loss'])\<close>, then the same
  for \<open>'accuracy'\<close>.
\<close>

definition plot_cell ::
  "('a, 'k, 'o) notebook \<Rightarrow> error option \<times> ('a, 'k, 'o) notebook" where
  "plot_cell nb =
     (case history_dict (history nb) ''loss'' of
        None \<Rightarrow> (Some KeyError, nb)
      | Some loss \<Rightarrow>
          if length (epoch (history nb)) \<noteq> length loss then (Some ValueError, nb)
          else
            let nb = nb\<lparr>out := out nb @ [Plot ''loss'' (epoch (history nb)) loss]\<rparr> in
            (case history_dict (history nb) ''accuracy'' of
               None \<Rightarrow> (Some KeyError, nb)
             | Some accuracy \<Rightarrow>
                 if length (epoch (history nb)) \<noteq> length accuracy then (Some ValueError, nb)
                 else (None, nb\<lparr>out := out nb @ [Plot ''accuracy'' (epoch (history nb)) accuracy]\<rparr>)))"

text \<open>
  The evaluation cell. \<open>numpy.expand_dims(x_test, -1)\<close> builds a new array with a
  trailing axis of length one; \<open>metrics_names\<close> is \<open>'loss'\<close> followed by the compiled
  metrics.
\<close>

definition evaluate_cell ::
  "('a, 'k, 'o, 'r) keras \<Rightarrow> 'r \<times> 'r \<Rightarrow> ('a, 'k, 'o) notebook
     \<Rightarrow> error option \<times> ('a, 'k, 'o) notebook" where
  "evaluate_cell K masks nb =
     (let nb = nb\<lparr>x_test_reshaped := map (map (\<lambda>v. [v])) (x_test nb)\<rparr>
      in case evaluate K (cnn_model nb) masks (x_test nb) (y_test nb) of
           Inl e \<Rightarrow> (Some e, nb)
         | Inr s \<Rightarrow>
             let nb = nb\<lparr>scores := s\<rparr>;
                 metrics_names = ''loss'' # metrics (cnn_model nb)
             in if length metrics_names \<le> 1 then (Some IndexError, nb)
                else (None, nb\<lparr>out := out nb @
                                 [Print_percent (metrics_names ! 1) (scores nb ! 1)]\<rparr>))"

text \<open>The confusion-matrix cell, with \<open>labels=list(range(10))\<close>.\<close>

definition confusion_cell ::
  "('a::linorder, 'k, 'o, 'r) keras \<Rightarrow> 'r \<times> 'r \<Rightarrow> ('a, 'k, 'o) notebook
     \<Rightarrow> error option \<times> ('a, 'k, 'o) notebook" where
  "confusion_cell K masks nb =
     (let nb = nb\<lparr>out := out nb @
                 [Print ''Confusion matrix (rows: true classes; columns: predicted classes):'',
                  Print []]\<rparr>
      in case predict K (cnn_model nb) masks (x_test nb) of
           Inl e \<Rightarrow> (Some e, nb)
         | Inr p \<Rightarrow>
          let nb = nb\<lparr>predictions := p\<rparr> in
          case argmax (predictions nb) of
           Inl e \<Rightarrow> (Some e, nb)
         | Inr classes \<Rightarrow>
             (case confusion_matrix (y_test nb) (map int classes) (map int [0..<10]) of
                Inl e \<Rightarrow> (Some e, nb)
              | Inr m \<Rightarrow>
                  let nb = nb\<lparr>cm := m\<rparr>;
                      nb = nb\<lparr>out := out nb @
                             [Print_matrix (cm nb), Print [],
                              Print ''Classification accuracy for each class:'', Print []]\<rparr>
                  in (None, nb\<lparr>out := out nb @
                              map (\<lambda>(i, j). Print_class_accuracy i j)
                                (enumerate 0 (per_class_accuracy (cm nb)))\<rparr>)))"

subsection \<open>A small instance of the library\<close>

text \<open>
  An instance of the library interface over the integers, small enough to evaluate
  whole runs: a convolution adds its weight to every entry, a dense layer fills its
  units with the weighted row sum, an active dropout layer zeroes every entry on an even
  draw, the optimizer counts its steps.
\<close>

definition toy :: "(int, int, nat, nat) keras" where
  "toy =
     \<lparr>Conv2D = (\<lambda>filters kernel_size activation k x. map (map (\<lambda>v. v + k)) x),
      MaxPooling2D = (\<lambda>pool_size x. x),
      drop_features = (\<lambda>rate r x. map (map (\<lambda>v. if even r then 0 else v)) x),
      Flatten = (\<lambda>x. x),
      Dense = (\<lambda>units activation k x. map (\<lambda>row. replicate units (k * sum_list row)) x),
      SparseCategoricalCrossentropy = (\<lambda>from_logits y_true y_pred. sum_list (map sum_list y_pred)),
      metric = (\<lambda>name y_true y_pred. int (length y_pred)),
      tape_gradient = (\<lambda>f m. Inr m),
      apply_gradients =
        (\<lambda>optimizer grads vars. Inr (optimizer\<lparr>slots := Suc (slots optimizer)\<rparr>, vars)),
      initial_weights = (\<lambda>r. \<lparr>conv_1 = int r, conv_2 = 1, dense_5 = 1, dense_7 = 1\<rparr>),
      initial_slots = 0,
      fit = (\<lambda>cnn x y batch_size epochs r.
               Inr (\<lparr>epoch = [0..<nat epochs], history_dict = (\<lambda>name. None)\<rparr>, cnn))\<rparr>"

subsection \<open>Well-formed inputs and a well-behaved library\<close>

text \<open>
  What the theorems below ask of the library: every layer keeps one row per sample, a
  dense layer of \<open>u\<close> units yields rows of \<open>u\<close> entries, and the gradient and the
  optimizer step raise nothing.
\<close>

definition keras_shapes :: "('a, 'k, 'o, 'r) keras \<Rightarrow> bool" where
  "keras_shapes K =
     ((\<forall>f ks a k x. length (Conv2D K f ks a k x) = length x)
      \<and> (\<forall>p x. length (MaxPooling2D K p x) = length x)
      \<and> (\<forall>x. length (Flatten K x) = length x)
      \<and> (\<forall>u a k x. length (Dense K u a k x) = length x
                     \<and> list_all (\<lambda>row. length row = u) (Dense K u a k x)))"

definition keras_total :: "('a, 'k, 'o, 'r) keras \<Rightarrow> bool" where
  "keras_total K =
     ((\<forall>f m. \<exists>g. tape_gradient K f m = Inr g)
      \<and> (\<forall>optimizer g m. \<exists>r. apply_gradients K optimizer g m = Inr r))"

text \<open>
  The images of a dataset, and of a list of batches, have the CIFAR-10 shape: each
  is a row of \<open>32 * 32 * 3\<close> entries; the labels are CIFAR-10 classes, one per image.
\<close>

definition well_shaped :: "('a list \<times> int) list \<Rightarrow> bool" where
  "well_shaped dataset = list_all (\<lambda>e. length (fst e) = 32 * 32 * 3) dataset"

definition labels_ok :: "('a list \<times> int) list \<Rightarrow> bool" where
  "labels_ok dataset = list_all (\<lambda>e. 0 \<le> snd e \<and> snd e < 10) dataset"

definition images_ok :: "('a tensor \<times> int list) list \<Rightarrow> bool" where
  "images_ok bs =
     (\<forall>b\<in>set bs. (\<forall>row\<in>set (fst b). length row = 32 * 32 * 3)
                  \<and> length (fst b) = length (snd b)
                  \<and> (\<forall>y\<in>set (snd b). 0 \<le> y \<and> y < 10))"

subsection \<open>The frame of the reporting cells\<close>

text \<open>The model (weights, optimizer, configuration) and the four dataset arrays are the same.\<close>

definition same_model_and_data :: "('a, 'k, 'o) notebook \<Rightarrow> ('a, 'k, 'o) notebook \<Rightarrow> bool" where
  "same_model_and_data nb nb' =
     (cnn_model nb' = cnn_model nb \<and> x_train nb' = x_train nb \<and> y_train nb' = y_train nb
      \<and> x_test nb' = x_test nb \<and> y_test nb' = y_test nb)"

subsection \<open>Concrete inputs\<close>

text \<open>
  Four CIFAR-shaped images, two of class 0 and two of class 1; the confusion matrix of a
  single sample of class 1 predicted as class 1; and a notebook state with three test
  samples.
\<close>

definition ds4 :: "(int list \<times> int) list" where
  "ds4 = [(replicate (32 * 32 * 3) 1, 0), (replicate (32 * 32 * 3) 2, 0),
          (replicate (32 * 32 * 3) 3, 1), (replicate (32 * 32 * 3) 4, 1)]"

definition cm1 :: "nat list list" where
  "cm1 =
         [[0, 0, 0, 0, 0, 0, 0, 0, 0, 0],
          [0, 1, 0, 0, 0, 0, 0, 0, 0, 0],
          [0, 0, 0, 0, 0, 0, 0, 0, 0, 0],
          [0, 0, 0, 0, 0, 0, 0, 0, 0, 0],
          [0, 0, 0, 0, 0, 0, 0, 0, 0, 0],
          [0, 0, 0, 0, 0, 0, 0, 0, 0, 0],
          [0, 0, 0, 0, 0, 0, 0, 0, 0, 0],
          [0, 0, 0, 0, 0, 0, 0, 0, 0, 0],
          [0, 0, 0, 0, 0, 0, 0, 0, 0, 0],
          [0, 0, 0, 0, 0, 0, 0, 0, 0, 0]]"

definition nb0 :: "(int, int, nat) notebook" where
  "nb0 =
     \<lparr>x_train = [], y_train = [],
      x_test = [[1, 2], [3, 4], [5, 6]], y_test = [0, 3, 3],
      cnn_model = \<lparr>network = \<lparr>conv_1 = 1, conv_2 = 1, dense_5 = 1, dense_7 = 1\<rparr>,
                   loss_id = ''sparse_categorical_crossentropy'',
                   compiled_optimizer = \<lparr>opt_name = ''adam'', learning_rate = 1 / 1000, slots = 0\<rparr>,
                   metrics = [''accuracy'']\<rparr>,
      history = \<lparr>epoch = [], history_dict = (\<lambda>name. None)\<rparr>,
      x_test_reshaped = [], scores = [], predictions = [], cm = [], out = []\<rparr>"

section \<open>Batching and reshaping\<close>

lemma batch_length: "0 < B \<Longrightarrow> length (batch B True xs) = length xs div B"
proof (induction B True xs rule: batch.induct)
  case (1 B xs)
  show ?case
  proof (cases "xs = [] \<or> length xs < B")
    case True
    then show ?thesis using 1(2) by (subst batch.simps) auto
  next
    case False
    then have "length (batch B True (drop B xs)) = length (drop B xs) div B"
      using 1 by simp
    then show ?thesis using False 1(2)
      by (subst batch.simps) (simp add: le_div_geq)
  qed
qed


lemma batch_concat:
  "0 < B \<Longrightarrow> concat (batch B True xs) = take (B * (length xs div B)) xs"
proof (induction B True xs rule: batch.induct)
  case (1 B xs)
  show ?case
  proof (cases "xs = [] \<or> length xs < B")
    case True
    then show ?thesis using 1(2) by (subst batch.simps) auto
  next
    case False
    then have le: "B \<le> length xs" and ne: "xs \<noteq> []" by auto
    have ih: "concat (batch B True (drop B xs)) = take (B * (length (drop B xs) div B)) (drop B xs)"
      using 1 False by simp
    have d: "length xs div B = Suc ((length xs - B) div B)"
      using le 1(2) by (simp add: le_div_geq)
    have "concat (batch B True xs) = take B xs @ concat (batch B True (drop B xs))"
      using False 1(2) by (subst batch.simps) simp
    also have "\<dots> = take B xs @ take (B * ((length xs - B) div B)) (drop B xs)"
      using ih by simp
    also have "\<dots> = take (B + B * ((length xs - B) div B)) xs"
      by (simp add: take_add)
    finally show ?thesis using d by simp
  qed
qed

lemma batch_rows: "0 < n \<Longrightarrow> \<forall>row\<in>set rows. length row = n \<Longrightarrow> batch n False (concat rows) = rows"
proof (induction rows)
  case Nil
  then show ?case by (subst batch.simps) simp
next
  case (Cons r rows)
  then have "r \<noteq> []" by auto
  then show ?case using Cons by (subst batch.simps) auto
qed

lemma reshape_images:
  "\<forall>row\<in>set batch_data. length row = 32 * 32 * 3 \<Longrightarrow> reshape batch_data = Inr batch_data"
proof -
  assume a: "\<forall>row\<in>set batch_data. length row = 32 * 32 * 3"
  have "length (concat batch_data) = length batch_data * (32 * 32 * 3)"
    using a by (induction batch_data) auto
  moreover have "batch (32 * 32 * 3) False (concat batch_data) = batch_data"
    using a by (intro batch_rows) auto
  ultimately show ?thesis by (simp add: reshape_def)
qed

lemma batch_Nil: "batch B d [] = []"
  by (subst batch.simps) simp

lemma batch_step:
  "0 < B \<Longrightarrow> B \<le> length xs \<Longrightarrow> xs \<noteq> [] \<Longrightarrow> batch B d xs = take B xs # batch B d (drop B xs)"
  by (subst batch.simps) simp


lemma epoch_batches_pos:
  "0 < B \<Longrightarrow> B < 2 ^ 63 \<Longrightarrow>
   epoch_batches draw B ds = Inr (map (\<lambda>e. (map fst e, map snd e)) (batch (nat B) True ds))"
  by (simp add: epoch_batches_def Let_def)

lemma batch_subset: "b \<in> set (batch B True xs) \<Longrightarrow> set b \<subseteq> set xs"
proof (cases "0 < B")
  case True
  assume "b \<in> set (batch B True xs)"
  then have "set b \<subseteq> set (concat (batch B True xs))" by auto
  also have "\<dots> \<subseteq> set xs" using True by (simp add: batch_concat set_take_subset)
  finally show ?thesis .
next
  case False
  assume "b \<in> set (batch B True xs)"
  then show ?thesis using False by (subst (asm) batch.simps) simp
qed

lemma call_shape:
  assumes "keras_shapes K"
  shows "length (call K model False masks x) = length x"
    and "list_all (\<lambda>row. length row = 10) (call K model False masks x)"
  using assms by (simp_all add: keras_shapes_def call_def Dropout_def Let_def)

lemma scce_call_ok:
  assumes "length y_true = length y_pred" "list_all (\<lambda>row. length row = 10) y_pred"
    "\<forall>y\<in>set y_true. 0 \<le> y \<and> y < 10"
  shows "scce_call K b y_true y_pred = Inr (SparseCategoricalCrossentropy K b y_true y_pred)"
proof -
  have "list_all2 (\<lambda>y row. 0 \<le> y \<and> y < int (length row)) y_true y_pred"
    using assms by (auto simp: list_all2_conv_all_nth list_all_length)
  then show ?thesis by (simp add: scce_call_def)
qed

lemma forward_pass_ok:
  assumes "keras_shapes K" "length data = length y" "\<forall>l\<in>set y. 0 \<le> l \<and> l < 10"
  shows "\<exists>loss. forward_pass K model masks data y = Inr loss"
proof -
  have len: "length y = length (call K model False masks data)"
    using call_shape(1) [OF assms(1), of model masks data] assms(2) by simp
  have rows: "list_all (\<lambda>row. length row = 10) (call K model False masks data)"
    using assms(1) by (rule call_shape(2))
  have "scce_call K False y (call K model False masks data)
      = Inr (SparseCategoricalCrossentropy K False y (call K model False masks data))"
    using len rows assms(3) by (rule scce_call_ok)
  then show ?thesis
    by (simp add: forward_pass_def model_call_def compute_loss_def Let_def)
qed

lemma train_iteration_count:
  assumes "keras_shapes K" "keras_total K" "length data = length y" "\<forall>l\<in>set y. 0 \<le> l \<and> l < 10"
  shows "\<exists>loss s. train_iteration K m data y st = Inr (loss, s)
           \<and> apply_count s = Suc (apply_count st) \<and> printed s = printed st"
proof -
  obtain loss where l: "forward_pass K (model_vars st) m data y = Inr loss"
    using forward_pass_ok [OF assms(1,3,4)] by blast
  obtain g where g: "tape_gradient K (\<lambda>v. forward_pass K v m data y) (model_vars st) = Inr g"
    using assms(2) unfolding keras_total_def by blast
  obtain r where r: "apply_gradients K (opt st) g (model_vars st) = Inr r"
    using assms(2) unfolding keras_total_def by blast
  obtain o' v' where p: "r = (o', v')" by (cases r)
  show ?thesis using l g r p by (simp add: train_iteration_def Let_def)
qed

section \<open>The training loop\<close>

lemma run_batches_count:
  assumes "keras_shapes K" "keras_total K"
  shows "images_ok bs \<Longrightarrow>
   \<exists>st'. run_batches K masks i bs st = Inr st' \<and> apply_count st' = apply_count st + length bs
        \<and> printed st' = printed st"
proof (induction bs arbitrary: i st)
  case Nil
  then show ?case by simp
next
  case (Cons b bs)
  obtain d y where b: "b = (d, y)" by (cases b)
  have r: "reshape d = Inr d" using Cons.prems b by (intro reshape_images) (simp add: images_ok_def)
  have ok: "images_ok bs" using Cons.prems by (simp add: images_ok_def)
  have dy: "length d = length y" "\<forall>l\<in>set y. 0 \<le> l \<and> l < 10"
    using Cons.prems b by (simp_all add: images_ok_def)
  obtain l s where t: "train_iteration K (masks i) d y st = Inr (l, s)"
      "apply_count s = Suc (apply_count st)" "printed s = printed st"
    using train_iteration_count [OF assms dy, of "masks i" st] by blast
  obtain st' where "run_batches K masks (Suc i) bs s = Inr st'"
      "apply_count st' = apply_count s + length bs" "printed st' = printed s"
    using Cons.IH [OF ok, of "Suc i" s] by blast
  then show ?case using b r t by simp
qed

lemma epoch_batches_ok:
  assumes "well_shaped ds" "labels_ok ds" "epoch_batches draw B ds = Inr bs"
  shows "images_ok bs"
proof -
  have B: "0 < B" "B < 2 ^ 63"
    using assms(3) by (auto simp: epoch_batches_def Let_def split: if_splits)
  have bs: "bs = map (\<lambda>e. (map fst e, map snd e)) (batch (nat B) True ds)"
    using assms(3) epoch_batches_pos [OF B, of draw ds] by simp
  have "(\<forall>row\<in>set (fst b). length row = 32 * 32 * 3) \<and> length (fst b) = length (snd b)
          \<and> (\<forall>y\<in>set (snd b). 0 \<le> y \<and> y < 10)" if mem: "b \<in> set bs" for b
  proof -
    obtain e where e: "e \<in> set (batch (nat B) True ds)" "b = (map fst e, map snd e)"
      using mem bs by auto
    have sub: "set e \<subseteq> set ds" using e(1) by (rule batch_subset)
    have "\<forall>row\<in>set (map fst e). length row = 32 * 32 * 3"
      using sub assms(1) by (auto simp: well_shaped_def list_all_iff)
    moreover have "\<forall>y\<in>set (map snd e). 0 \<le> y \<and> y < 10"
      using sub assms(2) by (auto simp: labels_ok_def list_all_iff)
    ultimately show ?thesis using e(2) by simp
  qed
  then show ?thesis unfolding images_ok_def by blast
qed

lemma epochs_from_count:
  assumes "keras_shapes K" "keras_total K" "well_shaped ds" "labels_ok ds" "0 < B" "B < 2 ^ 63"
  shows "\<exists>st'. epochs_from K ds draws masks B todo i st = Inr st'
           \<and> apply_count st' = apply_count st + todo * (length ds div nat B)
           \<and> printed st' = printed st
                @ concat (map (\<lambda>e. [Beginning_epoch e, Took_seconds_for_epoch e]) [i..<i + todo])"
proof (induction todo arbitrary: i st)
  case 0
  then show ?case by simp
next
  case (Suc todo)
  let ?st1 = "st\<lparr>printed := printed st @ [Beginning_epoch i]\<rparr>"
  let ?bs = "map (\<lambda>e. (map fst e, map snd e)) (batch (nat B) True ds)"
  have eb: "epoch_batches (draws i) B ds = Inr ?bs" using assms(5,6) by (rule epoch_batches_pos)
  have ok: "images_ok ?bs" using assms(3,4) eb by (rule epoch_batches_ok)
  have len: "length ?bs = length ds div nat B" using assms(5) by (simp add: batch_length)
  obtain s where s: "run_batches K (masks i) 0 ?bs ?st1 = Inr s"
      "apply_count s = apply_count ?st1 + length ?bs" "printed s = printed ?st1"
    using run_batches_count [OF assms(1,2) ok, of "masks i" 0 ?st1] by blast
  let ?st2 = "s\<lparr>printed := printed s @ [Took_seconds_for_epoch i]\<rparr>"
  obtain st' where st': "epochs_from K ds draws masks B todo (Suc i) ?st2 = Inr st'"
      "apply_count st' = apply_count ?st2 + todo * (length ds div nat B)"
      "printed st' = printed ?st2
         @ concat (map (\<lambda>e. [Beginning_epoch e, Took_seconds_for_epoch e]) [Suc i..<Suc i + todo])"
    using Suc.IH [of "Suc i" ?st2] by blast
  have step: "epochs_from K ds draws masks B (Suc todo) i st = Inr st'"
    using eb s(1) st'(1) by (simp add: Let_def)
  have up: "[i..<i + Suc todo] = i # [Suc i..<Suc i + todo]"
    by (simp add: upt_rec)
  show ?case
    using step st'(2,3) s(2,3) len unfolding up by simp
qed

lemma train_loop_count:
  assumes "keras_shapes K" "keras_total K" "well_shaped ds" "labels_ok ds" "0 < B" "B < 2 ^ 63"
  shows "\<exists>st. train_loop K ds draws masks B n model optimizer = Inr (None, st)
           \<and> apply_count st = nat n * (length ds div nat B)
           \<and> printed st = concat (map (\<lambda>e. [Beginning_epoch e, Took_seconds_for_epoch e]) [0..<nat n])"
proof -
  let ?st0 = "\<lparr>model_vars = model, opt = optimizer, apply_count = 0, printed = []\<rparr>"
  obtain st where "epochs_from K ds draws masks B (nat n) 0 ?st0 = Inr st"
     "apply_count st = apply_count ?st0 + nat n * (length ds div nat B)"
     "printed st = printed ?st0
        @ concat (map (\<lambda>e. [Beginning_epoch e, Took_seconds_for_epoch e]) [0..<0 + nat n])"
    using epochs_from_count [OF assms, of draws masks "nat n" 0 ?st0] by blast
  then show ?thesis by (simp add: train_loop_def)
qed


lemma toy_shapes: "keras_shapes toy"
  by (simp add: keras_shapes_def toy_def list_all_iff)

lemma toy_total: "keras_total toy"
  by (simp add: keras_total_def toy_def)

section \<open>Claims about the training loop\<close>




lemma ds4_shaped: "well_shaped ds4"
  by (simp add: well_shaped_def ds4_def)


lemma ds4_labels: "sort (map snd ds4) = [0, 0, 1, 1]"
  by (simp add: ds4_def)

lemma ds4_labels_ok: "labels_ok ds4"
  by (simp add: labels_ok_def ds4_def)

text \<open>
  The batches of an epoch do not depend on the order that epoch's shuffle draws: the
  shuffled dataset is computed and dropped, and the batches are cut from \<open>dataset\<close> itself.
\<close>

lemma epoch_batches_unshuffled:
  "epoch_batches draw batch_size dataset =
     (if batch_size = 0 then Inl ZeroDivisionError
      else if batch_size < 0 \<or> 2 ^ 63 \<le> batch_size then Inl ValueError
      else Inr (map (\<lambda>e. (map fst e, map snd e)) (batch (nat batch_size) True dataset)))"
  by (simp add: epoch_batches_def Let_def)

text \<open>
  C2 (the claim: every epoch presents a fresh permutation of the training data). On four
  samples with batch size 2, the order \<open>[3, 2, 1, 0]\<close> drawn by \<open>shuffle\<close> reverses the
  dataset, but the batches of the epoch are those of the unshuffled dataset, the same as
  under the identity order: the loop presents the samples in their stored order in every
  epoch.
\<close>

theorem shuffle_result_discarded:
  "shuffle [3, 2, 1, 0] 50000 [([1::int], 0::int), ([2], 0), ([3], 1), ([4], 1)]
     = [([4], 1), ([3], 1), ([2], 0), ([1], 0)]
   \<and> epoch_batches [3, 2, 1, 0] 2 [([1::int], 0), ([2], 0), ([3], 1), ([4], 1)]
     = Inr [([[1], [2]], [0, 0]), ([[3], [4]], [1, 1])]
   \<and> epoch_batches [0, 1, 2, 3] 2 [([1::int], 0), ([2], 0), ([3], 1), ([4], 1)]
     = Inr [([[1], [2]], [0, 0]), ([[3], [4]], [1, 1])]"
  by (simp add: shuffle_def upt_rec epoch_batches_def batch_step batch_Nil)

text \<open>
  C4, as amended. On a training partition of four CIFAR-shaped samples, two of class 0
  and two of class 1, with batch size 2 and one epoch, and a library whose layers keep the
  batch shape and whose gradient and optimizer steps raise nothing, a run of
  \<open>train_loop\<close> ends without error after exactly two \<open>apply_gradients\<close> calls and two
  printed lines; it returns \<open>None\<close>: the loop keeps no training history.
\<close>

theorem train_loop_two_steps_no_history:
  assumes "sort (map snd ds) = [0, 0, 1, 1]" "well_shaped ds" "keras_shapes K" "keras_total K"
  shows "\<exists>st. train_loop K ds draws masks 2 1 model optimizer = Inr (None, st)
           \<and> apply_count st = 2
           \<and> printed st = [Beginning_epoch 0, Took_seconds_for_epoch 0]"
proof -
  have "length (sort (map snd ds)) = 4" using assms(1) by simp
  then have len: "length ds = 4" by simp
  have "set (map snd ds) = set (sort (map snd ds))" by simp
  then have "set (map snd ds) = {0, 1}" using assms(1) by simp
  then have "\<forall>e\<in>set ds. snd e = 0 \<or> snd e = 1" by auto
  then have lab: "labels_ok ds" unfolding labels_ok_def list_all_iff by auto
  obtain st where st: "train_loop K ds draws masks 2 1 model optimizer = Inr (None, st)"
     "apply_count st = nat 1 * (length ds div nat 2)"
     "printed st = concat (map (\<lambda>e. [Beginning_epoch e, Took_seconds_for_epoch e]) [0..<nat 1])"
    using train_loop_count [OF assms(3,4,2) lab, of 2 draws masks 1 model optimizer] by auto
  have "apply_count st = 2" using st(2) len by simp
  moreover have "printed st = [Beginning_epoch 0, Took_seconds_for_epoch 0]" using st(3) by simp
  ultimately show ?thesis using st(1) by blast
qed

theorem train_loop_two_steps_no_history_witness:
  "sort (map snd ds4) = [0, 0, 1, 1] \<and> well_shaped ds4 \<and> keras_shapes toy \<and> keras_total toy
   \<and> (\<exists>st. train_loop toy ds4 (\<lambda>i. [3, 2, 1, 0]) (\<lambda>i j. (0, 0)) 2 1
               (initial_weights toy 7) (Adam toy (1 / 100)) = Inr (None, st)
           \<and> apply_count st = 2
           \<and> printed st = [Beginning_epoch 0, Took_seconds_for_epoch 0])"
  using ds4_labels ds4_shaped toy_shapes toy_total
    train_loop_two_steps_no_history [OF ds4_labels ds4_shaped toy_shapes toy_total,
      of "\<lambda>i. [3, 2, 1, 0]" "\<lambda>i j. (0, 0)" "initial_weights toy 7" "Adam toy (1 / 100)"]
  by blast

text \<open>
  C4 as stated fails: the run on the four samples returns no history record, so none
  with exactly one entry.
\<close>

theorem train_loop_history_counterexample:
  "\<not> (\<exists>h st. train_loop toy ds4 (\<lambda>i. [3, 2, 1, 0]) (\<lambda>i j. (0, 0)) 2 1
               (initial_weights toy 7) (Adam toy (1 / 100)) = Inr (Some h, st)
              \<and> length (epoch h) = 1)"
proof -
  obtain st where "train_loop toy ds4 (\<lambda>i. [3, 2, 1, 0]) (\<lambda>i j. (0, 0)) 2 1
               (initial_weights toy 7) (Adam toy (1 / 100)) = Inr (None, st)"
    using train_loop_count [OF toy_shapes toy_total ds4_shaped ds4_labels_ok, of 2
      "\<lambda>i. [3, 2, 1, 0]" "\<lambda>i j. (0, 0)" 1 "initial_weights toy 7" "Adam toy (1 / 100)"]
    by auto
  then show ?thesis by simp
qed




section \<open>Claims about the model\<close>

text \<open>In inference mode the model is the composition of its six computing layers.\<close>

lemma call_inference:
  "call K model False masks inputs =
     Dense K 10 ''softmax'' (dense_7 model)
       (Dense K 128 ''relu'' (dense_5 model)
         (Flatten K
           (MaxPooling2D K (2, 2)
             (Conv2D K 64 (3, 3) ''relu'' (conv_2 model)
               (Conv2D K 32 (3, 3) ''relu'' (conv_1 model) inputs)))))"
  by (simp add: call_def Dropout_def Let_def)

text \<open>
  The forward pass of the hand-written loop calls the model with no training argument:
  its loss is that of the inference-mode model, whatever the dropout draws.
\<close>

lemma forward_pass_without_dropout:
  "forward_pass K model masks batch_data y_true =
     scce_call K False y_true
       (Dense K 10 ''softmax'' (dense_7 model)
         (Dense K 128 ''relu'' (dense_5 model)
           (Flatten K
             (MaxPooling2D K (2, 2)
               (Conv2D K 64 (3, 3) ''relu'' (conv_2 model)
                 (Conv2D K 32 (3, 3) ''relu'' (conv_1 model) batch_data))))))"
  by (simp add: forward_pass_def model_call_def compute_loss_def call_inference Let_def)

text \<open>
  C3 (the claim: both dropout stages are active in every forward pass of the training
  loop). On the small library instance, where an active dropout layer zeroes its input on
  an even draw, the loop's forward pass gives the same loss under the draws (0, 0) and
  (1, 1), the loss of the undropped features; a call in training mode under the draw
  (0, 0) gives the loss 0. The loop's forward pass runs both dropout layers inactive.
\<close>

theorem forward_pass_dropout_inactive:
  "forward_pass toy \<lparr>conv_1 = 1, conv_2 = 1, dense_5 = 1, dense_7 = 1\<rparr> (0, 0) [[1, 2]] [0] = Inr 8960
   \<and> forward_pass toy \<lparr>conv_1 = 1, conv_2 = 1, dense_5 = 1, dense_7 = 1\<rparr> (1, 1) [[1, 2]] [0] = Inr 8960
   \<and> compute_loss toy [0]
        (model_call toy \<lparr>conv_1 = 1, conv_2 = 1, dense_5 = 1, dense_7 = 1\<rparr> (Some True) (0, 0) [[1, 2]]) = Inr 0"
  by (simp add: forward_pass_def model_call_def compute_loss_def scce_call_def call_def
        Dropout_def toy_def Let_def sum_list_replicate)

text \<open>
  C7. In inference mode the output of the model depends on the parameters and the image
  batch only: two applications to the same batch with the same parameters, whatever
  random draws are available to each, give the same predictions; so do \<open>predict\<close> and
  \<open>evaluate\<close>.
\<close>

theorem inference_deterministic:
  "model_call K model (Some False) masks images = model_call K model (Some False) masks' images
   \<and> predict K cnn masks images = predict K cnn masks' images
   \<and> evaluate K cnn masks images labels = evaluate K cnn masks' images labels"
  by (simp add: model_call_def predict_def evaluate_def call_inference)

text \<open>In training mode the output does depend on the draws.\<close>

lemma toy_training_mode_stochastic:
  "model_call toy \<lparr>conv_1 = 1, conv_2 = 1, dense_5 = 1, dense_7 = 1\<rparr> (Some True) (0, 0) [[1, 2]]
     \<noteq> model_call toy \<lparr>conv_1 = 1, conv_2 = 1, dense_5 = 1, dense_7 = 1\<rparr> (Some True) (1, 1) [[1, 2]]"
  by (simp add: model_call_def call_def Dropout_def toy_def Let_def sum_list_replicate)

text \<open>
  C10. \<open>train_network_concise\<close> does not depend on its learning-rate argument: two
  calls that differ in it only return the same result, which is that of \<open>fit\<close> on the
  model compiled with the optimizer built from the string \<open>"adam"\<close>, Adam with its default
  learning rate 0.001.
\<close>

theorem train_network_concise_ignores_lr:
  "train_network_concise K xs ys seed batch_size n_training_epochs lr
     = train_network_concise K xs ys seed batch_size n_training_epochs lr'
   \<and> train_network_concise K xs ys seed batch_size n_training_epochs lr
     = fit K \<lparr>network = initial_weights K seed,
              loss_id = ''sparse_categorical_crossentropy'',
              compiled_optimizer = \<lparr>opt_name = ''adam'', learning_rate = 1 / 1000,
                                     slots = initial_slots K\<rparr>,
              metrics = [''accuracy'']\<rparr>
         xs ys batch_size n_training_epochs seed"
  by (simp add: train_network_concise_def compile_def optimizers_get_def Adam_def Let_def
        split: sum.splits prod.splits)

section \<open>Claims about the reporting cells\<close>

lemma argmax_scan_less: "best_i < i \<Longrightarrow> argmax_scan ys i best_i best < i + length ys"
proof (induction ys arbitrary: i best_i best)
  case Nil
  then show ?case by simp
next
  case (Cons y ys)
  have "argmax_scan ys (Suc i) i y < Suc i + length ys" by (rule Cons.IH) simp
  moreover have "argmax_scan ys (Suc i) best_i best < Suc i + length ys"
    using Cons.prems by (intro Cons.IH) simp
  ultimately show ?case by simp
qed

lemma argmax_rows:
  assumes "\<forall>row\<in>set a. length row = n" "0 < n"
  shows "\<exists>classes. argmax a = Inr classes \<and> length classes = length a \<and> (\<forall>c\<in>set classes. c < n)"
proof -
  have ne: "[] \<notin> set a" using assms by auto
  have "argmax_scan (tl row) 1 0 (hd row) < n" if "row \<in> set a" for row
  proof -
    have "length row = n" using that assms(1) by simp
    then have "1 + length (tl row) = n" using assms(2) by (cases row) auto
    moreover have "argmax_scan (tl row) 1 0 (hd row) < 1 + length (tl row)"
      by (rule argmax_scan_less) simp
    ultimately show ?thesis by simp
  qed
  then show ?thesis using ne by (auto simp: argmax_def)
qed

lemma count_by_label:
  "distinct ls \<Longrightarrow>
   sum_list (map (\<lambda>j. length (filter (\<lambda>s. f s = j) ps)) ls) = length (filter (\<lambda>s. f s \<in> set ls) ps)"
proof (induction ps)
  case Nil
  then show ?case by simp
next
  case (Cons p ps)
  have one: "sum_list (map (\<lambda>j. if f p = j then 1 else 0) ls) = (if f p \<in> set ls then 1 else (0::nat))"
    using Cons.prems by (induction ls) auto
  have "sum_list (map (\<lambda>j. length (filter (\<lambda>s. f s = j) (p # ps))) ls)
      = sum_list (map (\<lambda>j. (if f p = j then 1 else 0) + length (filter (\<lambda>s. f s = j) ps)) ls)"
    by (intro arg_cong [where f = sum_list] map_cong) auto
  also have "\<dots> = sum_list (map (\<lambda>j. if f p = j then 1 else 0) ls)
                  + sum_list (map (\<lambda>j. length (filter (\<lambda>s. f s = j) ps)) ls)"
    by (simp add: sum_list_addf)
  finally show ?case using one Cons.IH [OF Cons.prems] by simp
qed

lemma cm_entry:
  "length (filter (\<lambda>s. s = (i, j)) ps) = length (filter (\<lambda>s. snd s = j) (filter (\<lambda>s. fst s = i) ps))"
  by (induction ps) auto

lemma cm_row_sum:
  assumes "distinct ls" "\<forall>p\<in>set y_pred. p \<in> set ls" "length y_true = length y_pred"
  shows "sum_list (map (\<lambda>j. length (filter (\<lambda>s. s = (i, j)) (zip y_true y_pred))) ls)
           = length (filter (\<lambda>t. t = i) y_true)"
proof -
  let ?row = "filter (\<lambda>s. fst s = i) (zip y_true y_pred)"
  have "sum_list (map (\<lambda>j. length (filter (\<lambda>s. s = (i, j)) (zip y_true y_pred))) ls)
      = sum_list (map (\<lambda>j. length (filter (\<lambda>s. snd s = j) ?row)) ls)"
    by (simp add: cm_entry)
  also have "\<dots> = length (filter (\<lambda>s. snd s \<in> set ls) ?row)"
    using assms(1) by (rule count_by_label)
  also have "\<dots> = length ?row"
  proof -
    have "\<forall>s\<in>set ?row. snd s \<in> set ls"
      using assms(2) by (auto dest: set_zip_rightD)
    then have "filter (\<lambda>s. snd s \<in> set ls) ?row = ?row" by (intro filter_True) 
    then show ?thesis by simp
  qed
  also have "\<dots> = length (filter (\<lambda>t. t = i) (map fst (zip y_true y_pred)))"
    by (simp add: filter_map comp_def)
  also have "\<dots> = length (filter (\<lambda>t. t = i) y_true)"
    using assms(3) by simp
  finally show ?thesis .
qed

lemma cm_total:
  assumes "distinct ls" "\<forall>t\<in>set y_true. t \<in> set ls"
  shows "sum_list (map (\<lambda>i. length (filter (\<lambda>t. t = i) y_true)) ls) = length y_true"
proof -
  have "sum_list (map (\<lambda>i. length (filter (\<lambda>t. t = i) y_true)) ls)
      = length (filter (\<lambda>t. t \<in> set ls) y_true)"
    using count_by_label [OF assms(1), of "\<lambda>t. t" y_true] by simp
  also have "filter (\<lambda>t. t \<in> set ls) y_true = y_true"
    using assms(2) by (intro filter_True)
  finally show ?thesis .
qed

lemma labels10: "distinct (map int [0..<10])" "set (map int [0..<10]) = {t. 0 \<le> t \<and> t \<le> 9}"
    "length (map int [0..<10]) = 10"
proof -
  show "distinct (map int [0..<10])" by (simp add: distinct_map)
  show "length (map int [0..<10]) = 10" by simp
  show "set (map int [0..<10]) = {t. 0 \<le> t \<and> t \<le> 9}"
  proof (intro set_eqI iffI)
    fix t assume "t \<in> set (map int [0..<10])"
    then show "t \<in> {t. 0 \<le> t \<and> t \<le> 9}" by auto
  next
    fix t :: int assume "t \<in> {t. 0 \<le> t \<and> t \<le> 9}"
    then have "t = int (nat t)" "nat t < 10" by auto
    then show "t \<in> set (map int [0..<10])"
      by (metis atLeastLessThan_iff image_eqI le0 set_map set_upt)
  qed
qed

lemma confusion_matrix_general:
  assumes "distinct ls" "y_true \<noteq> []" "\<forall>t\<in>set y_true. t \<in> set ls" "\<forall>p\<in>set y_pred. p \<in> set ls"
    "length y_true = length y_pred"
  shows "\<exists>m. confusion_matrix y_true y_pred ls = Inr m
           \<and> length m = length ls \<and> (\<forall>row\<in>set m. length row = length ls)
           \<and> sum_list (map sum_list m) = length y_true
           \<and> (\<forall>i<length ls. sum_list (m ! i) = length (filter (\<lambda>t. t = ls ! i) y_true))"
proof -
  define row where "row = (\<lambda>i. map (\<lambda>j. length (filter (\<lambda>s. s = (i, j)) (zip y_true y_pred))) ls)"
  have ex: "list_ex (\<lambda>t. t \<in> set ls) y_true"
    using assms(2,3) unfolding list_ex_iff by (cases y_true) auto
  then have ne: "ls \<noteq> []" unfolding list_ex_iff by auto
  have cmv: "confusion_matrix y_true y_pred ls = Inr (map row ls)"
    using assms(2,5) ex ne unfolding confusion_matrix_def row_def by simp
  have rows: "sum_list (row i) = length (filter (\<lambda>t. t = i) y_true)" for i
    unfolding row_def using assms(1,4,5) by (rule cm_row_sum)
  have total: "sum_list (map sum_list (map row ls)) = length y_true"
  proof -
    have "map sum_list (map row ls) = map (\<lambda>i. length (filter (\<lambda>t. t = i) y_true)) ls"
      using rows by (simp add: comp_def)
    then have "sum_list (map sum_list (map row ls))
        = sum_list (map (\<lambda>i. length (filter (\<lambda>t. t = i) y_true)) ls)"
      by (rule arg_cong)
    also have "\<dots> = length y_true" using assms(1,3) by (rule cm_total)
    finally show ?thesis .
  qed
  have nth: "\<forall>i<length ls. sum_list (map row ls ! i) = length (filter (\<lambda>t. t = ls ! i) y_true)"
    using rows by simp
  have "length (map row ls) = length ls" "\<forall>r\<in>set (map row ls). length r = length ls"
    by (auto simp: row_def)
  then show ?thesis using cmv total nth by blast
qed

lemma confusion_matrix_sums:
  assumes "\<forall>t\<in>set y_true. 0 \<le> t \<and> t \<le> 9" "\<forall>c\<in>set classes. c < 10"
    "length y_true = length classes" "y_true \<noteq> []"
  shows "\<exists>m. confusion_matrix y_true (map int classes) (map int [0..<10]) = Inr m
           \<and> length m = 10 \<and> (\<forall>row\<in>set m. length row = 10)
           \<and> sum_list (map sum_list m) = length y_true
           \<and> (\<forall>i<10. sum_list (m ! i) = length (filter (\<lambda>t. t = int i) y_true))"
proof -
  define ls where "ls = map int [0..<10]"
  have d: "distinct ls" and n: "length ls = 10" and s: "set ls = {t. 0 \<le> t \<and> t \<le> 9}"
    unfolding ls_def by (rule labels10)+
  have tl: "\<forall>t\<in>set y_true. t \<in> set ls" using assms(1) s by blast
  have pl: "\<forall>p\<in>set (map int classes). p \<in> set ls" using assms(2) s by auto
  have len: "length y_true = length (map int classes)" using assms(3) by simp
  have nth: "ls ! i = int i" if "i < 10" for i
    unfolding ls_def using that by (simp del: upt_Suc)
  obtain m where m: "confusion_matrix y_true (map int classes) ls = Inr m"
      "length m = length ls" "\<forall>row\<in>set m. length row = length ls"
      "sum_list (map sum_list m) = length y_true"
      "\<forall>i<length ls. sum_list (m ! i) = length (filter (\<lambda>t. t = ls ! i) y_true)"
    using confusion_matrix_general [OF d assms(4) tl pl len] by blast
  have "\<forall>i<10. sum_list (m ! i) = length (filter (\<lambda>t. t = int i) y_true)"
    using m(5) n nth by simp
  moreover have "length m = 10" "\<forall>row\<in>set m. length row = 10" using m(2,3) n by simp_all
  moreover have "confusion_matrix y_true (map int classes) (map int [0..<10]) = Inr m"
    using m(1) unfolding ls_def .
  ultimately show ?thesis using m(4) by blast
qed

lemma per_class_accuracy_nth:
  assumes "i < length M"
  shows "per_class_accuracy M ! i = true_divide (M ! i ! i) (sum_list (M ! i))"
  using assms by (simp add: per_class_accuracy_def diagonal_def sum_axis1_def del: upt_Suc)

text \<open>
  C5. When the library's layers keep the batch shape, the test partition is not empty,
  has one label per image and its labels lie in [0, 9], the confusion-matrix cell ends
  without error and the matrix it stores is 10 by 10; the sum of all its entries is the
  number of test samples, and for every class \<open>i\<close> the sum of row \<open>i\<close> is the number of
  test samples whose true class is \<open>i\<close>.
\<close>

theorem confusion_cell_sums:
  assumes "keras_shapes K" "x_test nb \<noteq> []" "length (x_test nb) = length (y_test nb)"
    "\<forall>t\<in>set (y_test nb). 0 \<le> t \<and> t \<le> 9"
  shows "fst (confusion_cell K masks nb) = None
         \<and> length (cm (snd (confusion_cell K masks nb))) = 10
         \<and> (\<forall>row\<in>set (cm (snd (confusion_cell K masks nb))). length row = 10)
         \<and> sum_list (map sum_list (cm (snd (confusion_cell K masks nb)))) = length (y_test nb)
         \<and> (\<forall>i<10. sum_list (cm (snd (confusion_cell K masks nb)) ! i)
                     = length (filter (\<lambda>t. t = int i) (y_test nb)))"
proof -
  let ?p = "call K (network (cnn_model nb)) False masks (x_test nb)"
  have p: "predict K (cnn_model nb) masks (x_test nb) = Inr ?p"
    using assms(2) by (simp add: predict_def model_call_def)
  have pl: "length ?p = length (x_test nb)" using assms(1) by (rule call_shape(1))
  have "list_all (\<lambda>row. length row = 10) ?p" using assms(1) by (rule call_shape(2))
  then have rows: "\<forall>row\<in>set ?p. length row = 10" by (simp add: list_all_iff)
  have ten: "(0::nat) < 10" by simp
  obtain classes where c: "argmax ?p = Inr classes" "length classes = length ?p"
      "\<forall>c\<in>set classes. c < 10"
    using argmax_rows [OF rows ten] by auto
  have len: "length (y_test nb) = length classes" using c(2) pl assms(3) by simp
  have ne: "y_test nb \<noteq> []" using assms(2,3) by auto
  obtain m where m: "confusion_matrix (y_test nb) (map int classes) (map int [0..<10]) = Inr m"
      "length m = 10" "\<forall>row\<in>set m. length row = 10"
      "sum_list (map sum_list m) = length (y_test nb)"
      "\<forall>i<10. sum_list (m ! i) = length (filter (\<lambda>t. t = int i) (y_test nb))"
    using confusion_matrix_sums [OF assms(4) c(3) len ne] by blast
  have "fst (confusion_cell K masks nb) = None" "cm (snd (confusion_cell K masks nb)) = m"
    using p c(1) m(1) by (simp_all add: confusion_cell_def Let_def)
  then show ?thesis using m(2-5) by simp
qed

theorem confusion_cell_sums_witness:
  "keras_shapes toy \<and> x_test nb0 \<noteq> [] \<and> length (x_test nb0) = length (y_test nb0)
   \<and> list_all (\<lambda>t. 0 \<le> t \<and> t \<le> 9) (y_test nb0)
   \<and> fst (confusion_cell toy (0, 0) nb0) = None
   \<and> sum_list (map sum_list (cm (snd (confusion_cell toy (0, 0) nb0)))) = 3
   \<and> sum_list (cm (snd (confusion_cell toy (0, 0) nb0)) ! 3) = 2"
proof -
  have h2: "x_test nb0 \<noteq> []" and h3: "length (x_test nb0) = length (y_test nb0)"
    by (simp_all add: nb0_def)
  have h4: "\<forall>t\<in>set (y_test nb0). 0 \<le> t \<and> t \<le> 9" by (simp add: nb0_def)
  note t = confusion_cell_sums [OF toy_shapes h2 h3 h4, of "(0, 0)"]
  have "sum_list (map sum_list (cm (snd (confusion_cell toy (0, 0) nb0)))) = 3"
    using t by (simp add: nb0_def)
  moreover have "sum_list (cm (snd (confusion_cell toy (0, 0) nb0)) ! 3) = 2"
  proof -
    have "sum_list (cm (snd (confusion_cell toy (0, 0) nb0)) ! 3)
        = length (filter (\<lambda>t. t = int 3) (y_test nb0))"
      using t by simp
    then show ?thesis by (simp add: nb0_def)
  qed
  ultimately show ?thesis using t toy_shapes h2 h3 h4 by (simp add: list_all_iff)
qed

text \<open>
  An empty test partition yields no confusion matrix: the cell stops in \<open>predict\<close>.
\<close>

lemma confusion_cell_empty:
  "x_test nb = [] \<Longrightarrow> fst (confusion_cell K masks nb) = Some ValueError"
  by (simp add: confusion_cell_def predict_def Let_def)

subsection \<open>The float64 quotient\<close>

lemma bit_length_0: "bit_length 0 = 0"
  by (subst bit_length.simps) simp

lemma bit_length_pos: "0 < n \<Longrightarrow> bit_length n = Suc (bit_length (n div 2))"
  by (subst bit_length.simps) simp

lemma bit_length_mono: "a \<le> b \<Longrightarrow> bit_length a \<le> bit_length b"
proof (induction b arbitrary: a rule: bit_length.induct)
  case (1 b)
  show ?case
  proof (cases "a = 0")
    case True
    then show ?thesis by (simp add: bit_length_0)
  next
    case False
    then have b: "0 < b" "0 < a" using 1(2) by auto
    have "bit_length (a div 2) \<le> bit_length (b div 2)"
      using b 1(2) by (intro 1(1)) (simp_all add: div_le_mono)
    then show ?thesis using b by (simp add: bit_length_pos)
  qed
qed

lemma exponent_third: "exponent 1 3 = - 2"
  by (simp add: exponent_def bit_length_pos bit_length_0 power_int_def Let_def)

lemma float64_divide_third: "float64_divide 1 3 = 6004799503160661 / 18014398509481984"
proof -
  have ulp: "(2::rat) powi (exponent 1 3 - 52) = 1 / 18014398509481984"
    unfolding exponent_third by (simp add: power_int_def power_one_over)
  have fl: "\<lfloor>18014398509481984 / 3 :: rat\<rfloor> = 6004799503160661"
    by (simp add: floor_eq_iff)
  have "round_half_even (18014398509481984 / 3) = 6004799503160661"
    unfolding round_half_even_def Let_def fl by simp
  then show ?thesis
    unfolding float64_divide_def Let_def ulp by simp
qed

lemma round_half_even_le: "x \<le> of_int N \<Longrightarrow> round_half_even x \<le> N"
proof -
  assume a: "x \<le> of_int N"
  then have f: "\<lfloor>x\<rfloor> \<le> N" by (simp add: floor_le_iff)
  show ?thesis
  proof (cases "\<lfloor>x\<rfloor> = N")
    case True
    then have "of_int N \<le> x" using of_int_floor_le [of x] by simp
    then have "x - of_int \<lfloor>x\<rfloor> = 0" using a True by simp
    then show ?thesis using True by (simp add: round_half_even_def Let_def)
  next
    case False
    then have "\<lfloor>x\<rfloor> + 1 \<le> N" using f by simp
    then show ?thesis using f by (simp add: round_half_even_def Let_def)
  qed
qed

lemma round_half_even_nonneg: "0 \<le> x \<Longrightarrow> 0 \<le> round_half_even x"
proof -
  assume "0 \<le> x"
  then have "0 \<le> \<lfloor>x\<rfloor>" by simp
  then show ?thesis by (simp add: round_half_even_def Let_def)
qed

lemma exponent_le: "a \<le> b \<Longrightarrow> exponent a b \<le> 0"
  using bit_length_mono [of a b] by (simp add: exponent_def Let_def)

lemma float64_divide_range:
  assumes "0 < a" "a \<le> b"
  shows "0 \<le> float64_divide a b \<and> float64_divide a b \<le> 1"
proof -
  define k where "k = nat (52 - exponent a b)"
  have e: "exponent a b - 52 = - int k" using exponent_le [OF assms(2)] by (simp add: k_def)
  have ulp: "(2::rat) powi (exponent a b - 52) = 1 / 2 ^ k"
    unfolding e by (simp add: power_int_minus field_simps)
  let ?q = "(of_nat a / of_nat b :: rat)"
  have q: "0 \<le> ?q" "?q \<le> 1" using assms by (simp_all add: divide_le_eq_1)
  have v: "float64_divide a b = of_int (round_half_even (?q * 2 ^ k)) / 2 ^ k"
    by (simp add: float64_divide_def Let_def ulp)
  have "?q * 2 ^ k \<le> 1 * 2 ^ k" using q(2) by (intro mult_right_mono) simp_all
  then have "?q * 2 ^ k \<le> of_int (2 ^ k)" by simp
  then have "round_half_even (?q * 2 ^ k) \<le> 2 ^ k" by (rule round_half_even_le)
  then have "(of_int (round_half_even (?q * 2 ^ k)) :: rat) \<le> of_int (2 ^ k)"
    by (simp only: of_int_le_iff)
  then have up: "float64_divide a b \<le> 1" unfolding v by (simp add: divide_le_eq_1)
  have "0 \<le> ?q * 2 ^ k" using q(1) by simp
  then have "0 \<le> round_half_even (?q * 2 ^ k)" by (rule round_half_even_nonneg)
  then have "0 \<le> float64_divide a b" unfolding v by simp
  then show ?thesis using up by simp
qed

lemma float64_divide_one: "float64_divide 1 1 = 1"
proof -
  have e: "exponent 1 1 = 0"
    by (simp add: exponent_def bit_length_pos bit_length_0 Let_def)
  have ulp: "(2::rat) powi (exponent 1 1 - 52) = 1 / 4503599627370496"
    unfolding e by (simp add: power_int_def power_one_over)
  have "round_half_even 4503599627370496 = 4503599627370496"
    by (simp add: round_half_even_def Let_def)
  then show ?thesis unfolding float64_divide_def Let_def ulp by simp
qed

text \<open>
  C6, as amended. For a confusion matrix and a class \<open>i\<close> whose row has the matrix's
  width: when row \<open>i\<close> has a positive sum, the per-class accuracy is the float64 quotient
  of the diagonal entry by the row sum and lies in [0, 1]; when row \<open>i\<close> sums to 0, the
  division is 0/0 and its value is NumPy's \<open>nan\<close>: no error is raised, and the value is
  not 0.
\<close>

theorem per_class_accuracy_range:
  assumes "i < length M" "length (M ! i) = length M"
  shows "(0 < sum_list (M ! i) \<longrightarrow>
            (\<exists>q. per_class_accuracy M ! i = Finite q \<and> 0 \<le> q \<and> q \<le> 1
                 \<and> q = (if M ! i ! i = 0 then 0
                        else float64_divide (M ! i ! i) (sum_list (M ! i)))))
         \<and> (sum_list (M ! i) = 0 \<longrightarrow> per_class_accuracy M ! i = NaN)"
proof -
  have le: "M ! i ! i \<le> sum_list (M ! i)"
    using assms by (intro elem_le_sum_list) simp
  have v: "per_class_accuracy M ! i = true_divide (M ! i ! i) (sum_list (M ! i))"
    using assms(1) by (rule per_class_accuracy_nth)
  show ?thesis
  proof (intro conjI impI)
    assume pos: "0 < sum_list (M ! i)"
    let ?q = "if M ! i ! i = 0 then 0 else float64_divide (M ! i ! i) (sum_list (M ! i))"
    have "per_class_accuracy M ! i = Finite ?q"
      using v pos by (simp add: true_divide_def del: sum_list_eq_0_iff)
    moreover have "0 \<le> ?q \<and> ?q \<le> 1"
      using float64_divide_range [OF _ le] by simp
    ultimately show "\<exists>q. per_class_accuracy M ! i = Finite q \<and> 0 \<le> q \<and> q \<le> 1
                 \<and> q = (if M ! i ! i = 0 then 0
                        else float64_divide (M ! i ! i) (sum_list (M ! i)))" by blast
  next
    assume z: "sum_list (M ! i) = 0"
    then have "M ! i ! i = 0" using le by (simp del: sum_list_eq_0_iff)
    then show "per_class_accuracy M ! i = NaN"
      using v z by (simp add: true_divide_def del: sum_list_eq_0_iff)
  qed
qed

lemma cm1_rows:
  "length cm1 = 10" "length (cm1 ! 0) = 10" "length (cm1 ! 1) = 10"
  "sum_list (cm1 ! 0) = 0" "sum_list (cm1 ! 1) = 1" "cm1 ! 0 ! 0 = 0" "cm1 ! 1 ! 1 = 1"
  by (simp_all add: cm1_def)

theorem per_class_accuracy_range_witness:
  "(1::nat) < length cm1 \<and> length (cm1 ! 1) = length cm1 \<and> 0 < sum_list (cm1 ! 1)
   \<and> per_class_accuracy cm1 ! 1 = Finite 1
   \<and> (0::nat) < length cm1 \<and> length (cm1 ! 0) = length cm1 \<and> sum_list (cm1 ! 0) = 0
   \<and> per_class_accuracy cm1 ! 0 = NaN"
proof -
  have a: "(1::nat) < length cm1" "length (cm1 ! 1) = length cm1" "0 < sum_list (cm1 ! 1)"
    by (simp_all add: cm1_def)
  have b: "(0::nat) < length cm1" "length (cm1 ! 0) = length cm1" "sum_list (cm1 ! 0) = 0"
    by (simp_all add: cm1_def)
  have "per_class_accuracy cm1 ! 1 = Finite (float64_divide 1 1)"
    using per_class_accuracy_range [OF a(1,2)] a(3) unfolding cm1_rows(5,7) by auto
  then have "per_class_accuracy cm1 ! 1 = Finite 1" by (simp only: float64_divide_one)
  moreover have "per_class_accuracy cm1 ! 0 = NaN"
    using per_class_accuracy_range [OF b(1,2)] b(3) by blast
  ultimately show ?thesis using a b by blast
qed

text \<open>The quotient is the rounded one: 1/3 is reported as the float64 nearest to it.\<close>

lemma true_divide_third: "true_divide 1 3 = Finite (6004799503160661 / 18014398509481984)"
  unfolding true_divide_def float64_divide_third by simp

lemma cm1_is_confusion_matrix: "confusion_matrix [1] [1] (map int [0..<10]) = Inr cm1"
  by (simp add: confusion_matrix_def cm1_def upt_rec)

text \<open>
  C6 as stated fails: for the confusion matrix of a single sample of class 1, row 0 sums
  to 0 and the accuracy reported for class 0 is \<open>nan\<close>, not a number in [0, 1].
\<close>

theorem per_class_accuracy_zero_row_counterexample:
  "confusion_matrix [1] [1] (map int [0..<10]) = Inr cm1
   \<and> sum_list (cm1 ! 0) = 0
   \<and> per_class_accuracy cm1 ! 0 = NaN
   \<and> \<not> (\<exists>q. per_class_accuracy cm1 ! 0 = Finite q \<and> 0 \<le> q \<and> q \<le> 1)"
proof -
  have "per_class_accuracy cm1 ! 0 = NaN"
    by (simp add: per_class_accuracy_nth cm1_rows true_divide_def)
  then show ?thesis using cm1_is_confusion_matrix by (simp add: cm1_rows)
qed

text \<open>
  C9. Each reporting cell (the plots, the evaluation on the test set, the confusion matrix
  with the per-class accuracies), whether it ends normally or with an error, leaves the
  compiled model (its weights and its optimizer) and the four dataset arrays as they
  were.
\<close>

theorem reporting_cells_frame:
  "same_model_and_data nb (snd (plot_cell nb))
   \<and> same_model_and_data nb (snd (evaluate_cell K masks nb))
   \<and> same_model_and_data nb (snd (confusion_cell K masks nb))"
proof (intro conjI)
  show "same_model_and_data nb (snd (plot_cell nb))"
    by (simp add: same_model_and_data_def plot_cell_def Let_def split: option.splits)
  show "same_model_and_data nb (snd (evaluate_cell K masks nb))"
    by (simp add: same_model_and_data_def evaluate_cell_def Let_def split: sum.splits)
  show "same_model_and_data nb (snd (confusion_cell K masks nb))"
    by (simp add: same_model_and_data_def confusion_cell_def Let_def split: sum.splits)
qed

end
